theory Spec2Isabelle
  imports Main
begin

section \<open>The post update form (src/components/post/form/PostUpdateForm.tsx)\<close>

text \<open>
  The component keeps two pieces of local state: the form of react-hook-form
  (\<open>useForm\<close>) and the counter \<open>characterCount\<close> (\<open>useState\<close>). It talks to
  three collaborators: the HTTP client (\<open>ApiService.update\<close>), the query cache of
  TanStack Query (\<open>queryClient.invalidateQueries\<close>) and the notification sink
  (\<open>toast\<close>). The model passes the state explicitly and records every call to a
  collaborator in a log, in the order the calls are made.

  A JavaScript string is modelled as a \<open>string\<close>; one list element stands for one
  UTF-16 code unit, so \<open>length\<close> is JavaScript's \<open>.length\<close>.
\<close>

subsection \<open>Data\<close>

text \<open>\<open>IPost\<close> (from \<open>@/types\<close>): the fields the component reads. Identifiers are
  integer keys; \<open>String(post.id)\<close> is their decimal rendering.\<close>

record IPost =
  post_id :: int
  post_title :: string
  post_content :: string
  post_categoryId :: int

text \<open>\<open>z.infer<typeof formSchema>\<close>: the values of the form, the draft.\<close>

record FormValues =
  title :: string
  content :: string
  categoryId :: string

datatype field = Title | Content | CategoryId

fun get_field :: "field \<Rightarrow> FormValues \<Rightarrow> string" where
  "get_field Title v = title v"
| "get_field Content v = content v"
| "get_field CategoryId v = categoryId v"

fun set_field :: "field \<Rightarrow> string \<Rightarrow> FormValues \<Rightarrow> FormValues" where
  "set_field Title x v = v\<lparr>title := x\<rparr>"
| "set_field Content x v = v\<lparr>content := x\<rparr>"
| "set_field CategoryId x v = v\<lparr>categoryId := x\<rparr>"

subsection \<open>The schema (lines 24-28)\<close>

text \<open>
  A zod string schema carries a list of checks, run in order; each failed check
  contributes one issue. \<open>min(n)\<close> fails when \<open>length < n\<close>, \<open>max(n)\<close> when
  \<open>length > n\<close>. An object schema runs the schema of each key and collects the
  issues under the key's path. Parsing succeeds when there is no issue.
\<close>

datatype string_check = MinLength nat | MaxLength nat

datatype issue_code = too_small | too_big

fun run_check :: "string_check \<Rightarrow> string \<Rightarrow> issue_code list" where
  "run_check (MinLength n) x = (if length x < n then [too_small] else [])"
| "run_check (MaxLength n) x = (if length x > n then [too_big] else [])"

definition z_string :: "string_check list \<Rightarrow> string \<Rightarrow> issue_code list" where
  "z_string checks x = concat (map (\<lambda>c. run_check c x) checks)"

definition formSchema :: "(field \<times> string_check list) list" where
  "formSchema =
     [(Title, [MinLength 1, MaxLength 50]),
      (Content, [MinLength 1, MaxLength 500]),
      (CategoryId, [MinLength 1])]"

definition z_object ::
  "(field \<times> string_check list) list \<Rightarrow> FormValues \<Rightarrow> (field \<times> issue_code) list" where
  "z_object shape v =
     concat (map (\<lambda>(f, checks). map (Pair f) (z_string checks (get_field f v))) shape)"

definition safeParse ::
  "(field \<times> string_check list) list \<Rightarrow> FormValues \<Rightarrow> (field \<times> issue_code) list + FormValues" where
  "safeParse shape v = (case z_object shape v of [] \<Rightarrow> Inr v | i # is \<Rightarrow> Inl (i # is))"

text \<open>\<open>zodResolver(formSchema)\<close>: the field errors of react-hook-form are the issues
  of the schema; the values are valid when there are none.\<close>

definition zodResolver ::
  "(field \<times> string_check list) list \<Rightarrow> FormValues \<Rightarrow> (field \<times> issue_code) list" where
  "zodResolver shape v = (case safeParse shape v of Inl issues \<Rightarrow> issues | Inr _ \<Rightarrow> [])"

subsection \<open>The form of react-hook-form (lines 46-53)\<close>

text \<open>
  The form holds the current values and the default values. \<open>useForm\<close> starts both
  at the \<open>defaultValues\<close> it is given. \<open>reset(values)\<close> replaces the current values
  and, since \<open>keepDefaultValues\<close> is not passed, the default values as well;
  \<open>reset()\<close> restores the current values to the default values stored then.
  \<open>trigger()\<close> runs the resolver on the current values and answers whether no
  field has an error. \<open>field.onChange\<close> stores a new value of one field.
\<close>

record form_state =
  formValues :: FormValues
  defaultValues :: FormValues

definition useForm :: "FormValues \<Rightarrow> form_state" where
  "useForm dv = \<lparr>formValues = dv, defaultValues = dv\<rparr>"

fun reset_form :: "FormValues option \<Rightarrow> form_state \<Rightarrow> form_state" where
  "reset_form (Some v) f = \<lparr>formValues = v, defaultValues = v\<rparr>"
| "reset_form None f = f\<lparr>formValues := defaultValues f\<rparr>"

definition trigger_form :: "form_state \<Rightarrow> bool" where
  "trigger_form f = (zodResolver formSchema (formValues f) = [])"

definition onChange_form :: "field \<Rightarrow> string \<Rightarrow> form_state \<Rightarrow> form_state" where
  "onChange_form fld x f = f\<lparr>formValues := set_field fld x (formValues f)\<rparr>"

subsection \<open>Collaborators\<close>

text \<open>The notification sink: \<open>toast({title, description, variant?})\<close>.\<close>

record toast_props =
  toast_title :: string
  description :: string
  variant :: "string option"

text \<open>The HTTP client: \<open>ApiService.update({path, id, body})\<close>. Its implementation
  is outside the component; the answer of the server is a parameter of the model.\<close>

record update_args =
  path :: string
  id_arg :: string
  body :: FormValues

datatype error = Error string

text \<open>The query cache: a query key is an array; \<open>invalidateQueries\<close> with
  \<open>exact: true\<close> matches the queries whose key is the given key, and without it
  the queries whose key starts with the given key. A matched query is marked
  invalidated.\<close>

datatype key_part = KStr string | KNum int

type_synonym query_key = "key_part list"

record query_filters =
  queryKey :: query_key
  exact :: bool

type_synonym query_cache = "query_key \<rightharpoonup> bool"

definition matchQuery :: "query_filters \<Rightarrow> query_key \<Rightarrow> bool" where
  "matchQuery filters k =
     (if exact filters then k = queryKey filters
      else take (length (queryKey filters)) k = queryKey filters)"

definition invalidate_cache :: "query_filters \<Rightarrow> query_cache \<Rightarrow> query_cache" where
  "invalidate_cache filters c =
     (\<lambda>k. case c k of None \<Rightarrow> None
          | Some invalidated \<Rightarrow> Some (invalidated \<or> matchQuery filters k))"

subsection \<open>The state of the component and its log of calls\<close>

datatype event =
    Triggered bool
  | UpdateCalled update_args
  | QueriesInvalidated query_filters
  | FormReset "FormValues option"
  | CharacterCountSet nat
  | Toasted toast_props

record state =
  form :: form_state
  characterCount :: nat
  queryCache :: query_cache
  log :: "event list"

definition emit :: "event \<Rightarrow> state \<Rightarrow> state" where
  "emit e s = s\<lparr>log := log s @ [e]\<rparr>"

definition form_trigger :: "state \<Rightarrow> bool \<times> state" where
  "form_trigger s = (let ok = trigger_form (form s) in (ok, emit (Triggered ok) s))"

definition form_reset :: "FormValues option \<Rightarrow> state \<Rightarrow> state" where
  "form_reset vo s = emit (FormReset vo) (s\<lparr>form := reset_form vo (form s)\<rparr>)"

definition field_onChange :: "field \<Rightarrow> string \<Rightarrow> state \<Rightarrow> state" where
  "field_onChange fld x s = s\<lparr>form := onChange_form fld x (form s)\<rparr>"

definition setCharacterCount :: "nat \<Rightarrow> state \<Rightarrow> state" where
  "setCharacterCount n s = emit (CharacterCountSet n) (s\<lparr>characterCount := n\<rparr>)"

definition toast :: "toast_props \<Rightarrow> state \<Rightarrow> state" where
  "toast t s = emit (Toasted t) s"

definition invalidateQueries :: "query_filters \<Rightarrow> state \<Rightarrow> state" where
  "invalidateQueries filters s =
     emit (QueriesInvalidated filters) (s\<lparr>queryCache := invalidate_cache filters (queryCache s)\<rparr>)"

definition ApiService_update ::
  "(update_args \<Rightarrow> error + unit) \<Rightarrow> update_args \<Rightarrow> state \<Rightarrow> (error + unit) \<times> state" where
  "ApiService_update server args s = (server args, emit (UpdateCalled args) s)"

subsection \<open>\<open>String(n)\<close> on an integer\<close>

fun String_nat :: "nat \<Rightarrow> string" where
  "String_nat n =
     (if n < 10 then [''0123456789'' ! n]
      else String_nat (n div 10) @ [''0123456789'' ! (n mod 10)])"

declare String_nat.simps [simp del]

definition String_int :: "int \<Rightarrow> string" where
  "String_int i = (if i < 0 then CHR ''-'' # String_nat (nat (- i)) else String_nat (nat i))"

text \<open>Reading a decimal numeral back.\<close>

definition digit_value :: "char \<Rightarrow> nat" where
  "digit_value c = of_char c - 48"

definition parse_nat :: "string \<Rightarrow> nat" where
  "parse_nat ds = foldl (\<lambda>a c. 10 * a + digit_value c) 0 ds"

subsection \<open>The component\<close>

text \<open>Lines 46-53 and 70-72: the initial local state. \<open>currentPost\<close> is what the
  query holds at the first render, if anything.\<close>

definition emptyValues :: FormValues where
  "emptyValues = \<lparr>title = [], content = [], categoryId = []\<rparr>"

definition init_state :: "IPost option \<Rightarrow> query_cache \<Rightarrow> state" where
  "init_state currentPost c =
     \<lparr>form = useForm emptyValues,
      characterCount = (case currentPost of None \<Rightarrow> 0 | Some p \<Rightarrow> length (post_content p)),
      queryCache = c,
      log = []\<rparr>"

text \<open>Lines 55-64: the effect that populates the form from the loaded post.\<close>

definition populate :: "bool \<Rightarrow> IPost option \<Rightarrow> state \<Rightarrow> state" where
  "populate isLoading currentPost s =
     (case currentPost of
        None \<Rightarrow> s
      | Some p \<Rightarrow>
          if \<not> isLoading then
            setCharacterCount (length (post_content p))
              (form_reset
                 (Some \<lparr>title = post_title p,
                        content = post_content p,
                        categoryId = String_int (post_categoryId p)\<rparr>) s)
          else s)"

text \<open>Lines 74-81: an edit of the content field.\<close>

definition handleContentChange :: "string \<Rightarrow> (string \<Rightarrow> state \<Rightarrow> state) \<Rightarrow> state \<Rightarrow> state" where
  "handleContentChange v onChange s = onChange v (setCharacterCount (length v) s)"

text \<open>Lines 156-158: the handler as the text area is wired.\<close>

definition content_onChange :: "string \<Rightarrow> state \<Rightarrow> state" where
  "content_onChange v s = handleContentChange v (field_onChange Content) s"

text \<open>Lines 83-123: the submission. The result is \<open>Inl\<close> of the error thrown, or
  \<open>Inr ()\<close> when the promise resolves.\<close>

definition invalidToast :: toast_props where
  "invalidToast =
     \<lparr>toast_title = ''Erreur'',
      description = ''Le formulaire n'' @ [CHR 0x27] @ ''est pas valide !'',
      variant = Some ''destructive''\<rparr>"

definition successToast :: toast_props where
  "successToast =
     \<lparr>toast_title = ''Succ'' @ [CHR 0xE8] @ ''s'',
      description = ''Votre post a bien '' @ [CHR 0xE9] @ ''t'' @ [CHR 0xE9]
                      @ '' modifi'' @ [CHR 0xE9] @ '' !'',
      variant = None\<rparr>"

definition failureToast :: toast_props where
  "failureToast =
     \<lparr>toast_title = ''Erreur'',
      description = ''Une erreur est survenue lors de la modification du post.'',
      variant = Some ''destructive''\<rparr>"

definition onSubmit ::
  "(update_args \<Rightarrow> error + unit) \<Rightarrow> IPost \<Rightarrow> FormValues \<Rightarrow> state \<Rightarrow> (error + unit) \<times> state" where
  "onSubmit server post values s =
     (let (isFormValid, s1) = form_trigger s in
      if \<not> isFormValid then
        (Inl (Error ''Form is not valid''), toast invalidToast s1)
      else
        (case ApiService_update server
                \<lparr>path = ''/posts'', id_arg = String_int (post_id post), body = values\<rparr> s1 of
           (Inr _, s2) \<Rightarrow>
             (Inr (),
              toast successToast
                (setCharacterCount 0
                   (form_reset None
                      (invalidateQueries \<lparr>queryKey = [KStr ''posts''], exact = True\<rparr> s2))))
         | (Inl err, s2) \<Rightarrow> (Inl err, toast failureToast s2)))"

text \<open>Lines 165-180: the counter under the text area; \<open>None\<close> is \<open>null\<close>, nothing
  rendered; otherwise the class of the inner span and its text.\<close>

definition counterView :: "nat \<Rightarrow> (string \<times> string) option" where
  "counterView count =
     (if count > 0 then
        Some ('' '' @ (if count > 400 then ''text-red-500/50''
                       else if count > 200 then ''text-yellow-500/50''
                       else ''text-black/50''),
              String_nat count @ ''/500'')
      else None)"

subsection \<open>Reading the log\<close>

text \<open>The calls one operation adds to the log, and the stage of the submission
  each call belongs to.\<close>

definition emitted :: "state \<Rightarrow> state \<Rightarrow> event list" where
  "emitted s s' = drop (length (log s)) (log s')"

datatype stage = Validation | NetworkCall | CacheInvalidation | LocalReset | Notification

fun stage_of :: "event \<Rightarrow> stage" where
  "stage_of (Triggered _) = Validation"
| "stage_of (UpdateCalled _) = NetworkCall"
| "stage_of (QueriesInvalidated _) = CacheInvalidation"
| "stage_of (FormReset _) = LocalReset"
| "stage_of (CharacterCountSet _) = LocalReset"
| "stage_of (Toasted _) = Notification"

fun stage_rank :: "stage \<Rightarrow> nat" where
  "stage_rank Validation = 0"
| "stage_rank NetworkCall = 1"
| "stage_rank CacheInvalidation = 2"
| "stage_rank LocalReset = 3"
| "stage_rank Notification = 4"

text \<open>The draft is the current values of the form.\<close>

definition draft :: "state \<Rightarrow> FormValues" where
  "draft s = formValues (form s)"

subsection \<open>A scenario\<close>

text \<open>The post \<open>{id: 1, title: "Hello", content: "World", categoryId: 7}\<close>, a
  component mounted before the post is loaded, over a cache that holds the
  listing \<open>["posts"]\<close>, a paginated listing \<open>["posts", 2]\<close> and the post itself.\<close>

definition helloPost :: IPost where
  "helloPost = \<lparr>post_id = 1, post_title = ''Hello'', post_content = ''World'', post_categoryId = 7\<rparr>"

definition helloCache :: query_cache where
  "helloCache =
     [[KStr ''posts''] \<mapsto> False,
      [KStr ''posts'', KNum 2] \<mapsto> False,
      [KStr ''post'', KNum 1] \<mapsto> False]"

definition mounted :: state where
  "mounted = init_state None helloCache"

definition loaded :: state where
  "loaded = populate False (Some helloPost) mounted"

text \<open>The user then types one more character into the content.\<close>

definition edited :: state where
  "edited = content_onChange ''World!'' loaded"

definition serverOk :: "update_args \<Rightarrow> error + unit" where
  "serverOk args = Inr ()"

definition serverDown :: "update_args \<Rightarrow> error + unit" where
  "serverDown args = Inl (Error ''Network Error'')"

section \<open>Properties\<close>

subsection \<open>The schema\<close>

lemma z_object_formSchema:
  "z_object formSchema v =
     map (Pair Title) (z_string [MinLength 1, MaxLength 50] (title v)) @
     map (Pair Content) (z_string [MinLength 1, MaxLength 500] (content v)) @
     map (Pair CategoryId) (z_string [MinLength 1] (categoryId v))"
  by (simp add: z_object_def formSchema_def)

lemma z_string_min_max:
  "z_string [MinLength (Suc 0), MaxLength n] x = [] \<longleftrightarrow> x \<noteq> [] \<and> length x \<le> n"
  by (cases x) (auto simp: z_string_def)

lemma z_string_min: "z_string [MinLength (Suc 0)] x = [] \<longleftrightarrow> x \<noteq> []"
  by (cases x) (auto simp: z_string_def)

lemma zodResolver_empty: "zodResolver shape v = [] \<longleftrightarrow> z_object shape v = []"
  by (auto simp: zodResolver_def safeParse_def split: list.splits)

lemma trigger_form_iff:
  "trigger_form f \<longleftrightarrow>
     title (formValues f) \<noteq> [] \<and> length (title (formValues f)) \<le> 50 \<and>
     content (formValues f) \<noteq> [] \<and> length (content (formValues f)) \<le> 500 \<and>
     categoryId (formValues f) \<noteq> []"
  by (simp add: trigger_form_def zodResolver_empty z_object_formSchema
      z_string_min_max z_string_min)

subsection \<open>\<open>String\<close> writes decimal numerals\<close>

lemma digit_value_nth:
  assumes "d < 10"
  shows "digit_value (''0123456789'' ! d) = d"
proof -
  from assms have "d = 0 \<or> d = 1 \<or> d = 2 \<or> d = 3 \<or> d = 4 \<or> d = 5 \<or> d = 6 \<or> d = 7 \<or> d = 8 \<or> d = 9"
    by arith
  then show ?thesis
    by (elim disjE) (simp_all add: digit_value_def)
qed

lemma parse_nat_String_nat: "parse_nat (String_nat n) = n"
proof (induction n rule: String_nat.induct)
  case (1 n)
  show ?case
  proof (cases "n < 10")
    case True
    then show ?thesis
      by (subst String_nat.simps) (simp add: parse_nat_def digit_value_nth)
  next
    case False
    with 1 have "parse_nat (String_nat (n div 10)) = n div 10" by simp
    with False show ?thesis
      by (subst String_nat.simps) (simp add: parse_nat_def digit_value_nth)
  qed
qed

subsection \<open>The submission, case by case\<close>

lemma emitted_append [simp]: "emitted s (s'\<lparr>log := log s @ es\<rparr>) = es"
  by (simp add: emitted_def)

lemma onSubmit_invalid:
  assumes "\<not> trigger_form (form s)"
  shows "onSubmit server post values s =
           (Inl (Error ''Form is not valid''),
            s\<lparr>log := log s @ [Triggered False, Toasted invalidToast]\<rparr>)"
  using assms by (simp add: onSubmit_def form_trigger_def toast_def emit_def)

lemma onSubmit_failure:
  assumes "trigger_form (form s)"
    and "server \<lparr>path = ''/posts'', id_arg = String_int (post_id post), body = values\<rparr> = Inl err"
  shows "onSubmit server post values s =
           (Inl err,
            s\<lparr>log := log s @
                 [Triggered True,
                  UpdateCalled \<lparr>path = ''/posts'', id_arg = String_int (post_id post), body = values\<rparr>,
                  Toasted failureToast]\<rparr>)"
  using assms by (simp add: onSubmit_def form_trigger_def ApiService_update_def toast_def emit_def)

lemma onSubmit_success:
  assumes "trigger_form (form s)"
    and "server \<lparr>path = ''/posts'', id_arg = String_int (post_id post), body = values\<rparr> = Inr u"
  shows "onSubmit server post values s =
           (Inr (),
            s\<lparr>form := reset_form None (form s),
              characterCount := 0,
              queryCache := invalidate_cache \<lparr>queryKey = [KStr ''posts''], exact = True\<rparr> (queryCache s),
              log := log s @
                 [Triggered True,
                  UpdateCalled \<lparr>path = ''/posts'', id_arg = String_int (post_id post), body = values\<rparr>,
                  QueriesInvalidated \<lparr>queryKey = [KStr ''posts''], exact = True\<rparr>,
                  FormReset None,
                  CharacterCountSet 0,
                  Toasted successToast]\<rparr>)"
  using assms
  by (simp add: onSubmit_def form_trigger_def ApiService_update_def toast_def emit_def
      invalidateQueries_def form_reset_def setCharacterCount_def)

lemma onSubmit_Inr_D:
  assumes "fst (onSubmit server post values s) = Inr u"
  shows "trigger_form (form s) \<and>
         server \<lparr>path = ''/posts'', id_arg = String_int (post_id post), body = values\<rparr> = Inr ()"
proof (cases "trigger_form (form s)")
  case False
  with assms show ?thesis by (simp add: onSubmit_invalid)
next
  case True
  show ?thesis
  proof (cases "server \<lparr>path = ''/posts'', id_arg = String_int (post_id post), body = values\<rparr>")
    case (Inl err)
    with True assms show ?thesis by (simp add: onSubmit_failure)
  next
    case (Inr v)
    with True show ?thesis by simp
  qed
qed

lemma onSubmit_Inl_D:
  assumes "fst (onSubmit server post values s) = Inl err"
  shows "form (snd (onSubmit server post values s)) = form s \<and>
         characterCount (snd (onSubmit server post values s)) = characterCount s \<and>
         queryCache (snd (onSubmit server post values s)) = queryCache s"
proof (cases "trigger_form (form s)")
  case False
  then show ?thesis by (simp add: onSubmit_invalid)
next
  case True
  show ?thesis
  proof (cases "server \<lparr>path = ''/posts'', id_arg = String_int (post_id post), body = values\<rparr>")
    case (Inl e)
    with True show ?thesis by (simp add: onSubmit_failure)
  next
    case (Inr v)
    with True assms show ?thesis by (simp add: onSubmit_success)
  qed
qed

lemma trigger_form_draft:
  "trigger_form (form s) \<longleftrightarrow>
     title (draft s) \<noteq> [] \<and> length (title (draft s)) \<le> 50 \<and>
     content (draft s) \<noteq> [] \<and> length (content (draft s)) \<le> 500 \<and>
     categoryId (draft s) \<noteq> []"
  by (simp add: trigger_form_iff draft_def)

lemma safeParse_Inr: "safeParse shape v = Inr v \<longleftrightarrow> z_object shape v = []"
  by (simp add: safeParse_def split: list.splits)

lemma content_onChange_count:
  "characterCount (content_onChange v s) = length (content (draft (content_onChange v s)))"
  by (simp add: content_onChange_def handleContentChange_def field_onChange_def
      onChange_form_def setCharacterCount_def emit_def draft_def)

lemma populate_count:
  "characterCount (populate False (Some p) s)
     = length (content (draft (populate False (Some p) s)))"
  by (simp add: populate_def draft_def setCharacterCount_def form_reset_def emit_def)

lemma populate_idle:
  "populate True currentPost s = s" "populate isLoading None s = s"
  by (simp_all add: populate_def split: option.splits)

lemma onSubmit_success_reset:
  assumes "fst (onSubmit server post values s) = Inr u"
  shows "draft (snd (onSubmit server post values s)) = defaultValues (form s) \<and>
         characterCount (snd (onSubmit server post values s)) = 0"
  using onSubmit_Inr_D [OF assms] by (simp add: onSubmit_success draft_def)

subsection \<open>The scenario, evaluated\<close>

lemma String_int_7: "String_int 7 = ''7''"
  by (simp add: String_int_def String_nat.simps)

lemma String_int_1: "String_int 1 = ''1''"
  by (simp add: String_int_def String_nat.simps)

lemma form_mounted:
  "form mounted = \<lparr>formValues = emptyValues, defaultValues = emptyValues\<rparr>"
  by (simp add: mounted_def init_state_def useForm_def)

lemma form_loaded:
  "form loaded =
     \<lparr>formValues = \<lparr>title = ''Hello'', content = ''World'', categoryId = ''7''\<rparr>,
      defaultValues = \<lparr>title = ''Hello'', content = ''World'', categoryId = ''7''\<rparr>\<rparr>"
  by (simp add: loaded_def populate_def setCharacterCount_def form_reset_def emit_def
      helloPost_def String_int_7)

lemma characterCount_loaded: "characterCount loaded = 5"
  by (simp add: loaded_def populate_def setCharacterCount_def form_reset_def emit_def
      helloPost_def)

lemma queryCache_loaded: "queryCache loaded = helloCache"
  by (simp add: loaded_def populate_def setCharacterCount_def form_reset_def emit_def
      mounted_def init_state_def)

lemma trigger_form_loaded: "trigger_form (form loaded)"
  by (simp add: trigger_form_iff form_loaded)

lemma trigger_form_mounted: "\<not> trigger_form (form mounted)"
  by (simp add: trigger_form_iff form_mounted emptyValues_def)

lemma form_edited:
  "form edited =
     \<lparr>formValues = \<lparr>title = ''Hello'', content = ''World!'', categoryId = ''7''\<rparr>,
      defaultValues = \<lparr>title = ''Hello'', content = ''World'', categoryId = ''7''\<rparr>\<rparr>"
  by (simp add: edited_def content_onChange_def handleContentChange_def field_onChange_def
      onChange_form_def setCharacterCount_def emit_def form_loaded)

lemma characterCount_edited: "characterCount edited = 6"
  by (simp add: edited_def content_onChange_count content_onChange_def handleContentChange_def
      field_onChange_def onChange_form_def setCharacterCount_def emit_def draft_def)

section \<open>The specified properties\<close>

text \<open>
  C1. When the title, the content or the categoryId of the draft is empty, the
  submission is rejected with the error "Form is not valid", the only calls it
  makes are the validation and one toast of variant "destructive", and none of
  its calls is the update request. The draft is what \<open>form.trigger()\<close> validates:
  the current values of the form, which \<open>form.handleSubmit\<close> passes as \<open>values\<close>.
\<close>

theorem submit_rejects_empty_field:
  assumes "title (draft s) = [] \<or> content (draft s) = [] \<or> categoryId (draft s) = []"
  shows "fst (onSubmit server post values s) = Inl (Error ''Form is not valid'') \<and>
         emitted s (snd (onSubmit server post values s)) = [Triggered False, Toasted invalidToast] \<and>
         variant invalidToast = Some ''destructive'' \<and>
         (\<forall>e \<in> set (emitted s (snd (onSubmit server post values s))). stage_of e \<noteq> NetworkCall)"
proof -
  from assms have "\<not> trigger_form (form s)"
    by (auto simp: trigger_form_draft)
  then show ?thesis
    by (simp add: onSubmit_invalid invalidToast_def)
qed

theorem submit_rejects_empty_field_witness:
  "title (draft (field_onChange CategoryId ''1'' (content_onChange ''x'' mounted))) = [] \<and>
   fst (onSubmit serverOk helloPost \<lparr>title = [], content = ''x'', categoryId = ''1''\<rparr>
          (field_onChange CategoryId ''1'' (content_onChange ''x'' mounted)))
     = Inl (Error ''Form is not valid'') \<and>
   emitted (field_onChange CategoryId ''1'' (content_onChange ''x'' mounted))
     (snd (onSubmit serverOk helloPost \<lparr>title = [], content = ''x'', categoryId = ''1''\<rparr>
          (field_onChange CategoryId ''1'' (content_onChange ''x'' mounted))))
     = [Triggered False, Toasted invalidToast]"
proof -
  have h: "title (draft (field_onChange CategoryId ''1'' (content_onChange ''x'' mounted))) = []"
    by (simp add: draft_def field_onChange_def onChange_form_def content_onChange_def
        handleContentChange_def setCharacterCount_def emit_def mounted_def init_state_def
        useForm_def emptyValues_def)
  from h submit_rejects_empty_field [of "field_onChange CategoryId ''1'' (content_onChange ''x'' mounted)"
      serverOk helloPost "\<lparr>title = [], content = ''x'', categoryId = ''1''\<rparr>"]
  show ?thesis by simp
qed

text \<open>
  C2. A draft passes the schema exactly when its title is non-empty and at most
  50 long, its content is non-empty and at most 500 long, and its categoryId is
  non-empty.
\<close>

theorem formSchema_accepts_iff:
  "safeParse formSchema v = Inr v \<longleftrightarrow>
     title v \<noteq> [] \<and> length (title v) \<le> 50 \<and>
     content v \<noteq> [] \<and> length (content v) \<le> 500 \<and>
     categoryId v \<noteq> []"
  by (simp add: safeParse_Inr z_object_formSchema z_string_min_max z_string_min)

theorem formSchema_accepts_iff_witness:
  "safeParse formSchema \<lparr>title = ''Hello'', content = ''World'', categoryId = ''7''\<rparr>
     = Inr \<lparr>title = ''Hello'', content = ''World'', categoryId = ''7''\<rparr>
   \<and> safeParse formSchema \<lparr>title = [], content = ''x'', categoryId = ''1''\<rparr>
     \<noteq> Inr \<lparr>title = [], content = ''x'', categoryId = ''1''\<rparr>"
  using formSchema_accepts_iff [of "\<lparr>title = ''Hello'', content = ''World'', categoryId = ''7''\<rparr>"]
    formSchema_accepts_iff [of "\<lparr>title = [], content = ''x'', categoryId = ''1''\<rparr>"]
  by simp

text \<open>
  C3. The calls of one submission, read by stage, are: validation and
  notification when the draft is invalid; validation, network call and
  notification when the update fails; validation, network call, cache
  invalidation, the two local resets (form, then character count) and
  notification when it succeeds. So the stages never go backwards, a local
  reset is made exactly when the submission succeeds, and it comes before the
  notification of success.
\<close>

theorem onSubmit_stage_order:
  "map stage_of (emitted s (snd (onSubmit server post values s))) =
     (case fst (onSubmit server post values s) of
        Inr _ \<Rightarrow> [Validation, NetworkCall, CacheInvalidation, LocalReset, LocalReset, Notification]
      | Inl _ \<Rightarrow> if trigger_form (form s) then [Validation, NetworkCall, Notification]
                 else [Validation, Notification]) \<and>
   sorted (map (stage_rank \<circ> stage_of) (emitted s (snd (onSubmit server post values s)))) \<and>
   (LocalReset \<in> stage_of ` set (emitted s (snd (onSubmit server post values s)))
      \<longleftrightarrow> fst (onSubmit server post values s) = Inr ()) \<and>
   (fst (onSubmit server post values s) = Inr () \<longrightarrow>
      drop 3 (emitted s (snd (onSubmit server post values s)))
        = [FormReset None, CharacterCountSet 0, Toasted successToast])"
proof (cases "trigger_form (form s)")
  case False
  then show ?thesis by (simp add: onSubmit_invalid)
next
  case True
  show ?thesis
  proof (cases "server \<lparr>path = ''/posts'', id_arg = String_int (post_id post), body = values\<rparr>")
    case (Inl err)
    with True show ?thesis by (simp add: onSubmit_failure)
  next
    case (Inr u)
    with True show ?thesis by (simp add: onSubmit_success)
  qed
qed

theorem onSubmit_stage_order_witness:
  "map stage_of (emitted loaded (snd (onSubmit serverOk helloPost (draft loaded) loaded)))
     = [Validation, NetworkCall, CacheInvalidation, LocalReset, LocalReset, Notification] \<and>
   map stage_of (emitted loaded (snd (onSubmit serverDown helloPost (draft loaded) loaded)))
     = [Validation, NetworkCall, Notification] \<and>
   map stage_of (emitted mounted (snd (onSubmit serverOk helloPost (draft mounted) mounted)))
     = [Validation, Notification]"
proof -
  note ok = trigger_form_loaded and bad = trigger_form_mounted
  have r1: "fst (onSubmit serverOk helloPost (draft loaded) loaded) = Inr ()"
    using ok by (simp add: onSubmit_success [where u="()"] serverOk_def)
  have r2: "fst (onSubmit serverDown helloPost (draft loaded) loaded) = Inl (Error ''Network Error'')"
    using ok by (simp add: onSubmit_failure [where err="Error ''Network Error''"] serverDown_def)
  have r3: "fst (onSubmit serverOk helloPost (draft mounted) mounted) = Inl (Error ''Form is not valid'')"
    using bad by (simp add: onSubmit_invalid)
  from onSubmit_stage_order [of loaded serverOk helloPost "draft loaded"]
    onSubmit_stage_order [of loaded serverDown helloPost "draft loaded"]
    onSubmit_stage_order [of mounted serverOk helloPost "draft mounted"]
    ok bad r1 r2 r3
  show ?thesis by simp
qed

text \<open>
  C4. When the draft is valid and the update request fails, the submission
  fails with the error of the request, its calls are the validation, the
  request and one toast of variant "destructive", and the form (the draft and
  its default values), the character count and the query cache are as before:
  no call invalidates the cache or resets local state.
\<close>

theorem network_failure_keeps_draft:
  assumes "trigger_form (form s)"
    and "server \<lparr>path = ''/posts'', id_arg = String_int (post_id post), body = values\<rparr> = Inl err"
  shows "fst (onSubmit server post values s) = Inl err \<and>
         emitted s (snd (onSubmit server post values s)) =
           [Triggered True,
            UpdateCalled \<lparr>path = ''/posts'', id_arg = String_int (post_id post), body = values\<rparr>,
            Toasted failureToast] \<and>
         variant failureToast = Some ''destructive'' \<and>
         draft (snd (onSubmit server post values s)) = draft s \<and>
         form (snd (onSubmit server post values s)) = form s \<and>
         characterCount (snd (onSubmit server post values s)) = characterCount s \<and>
         queryCache (snd (onSubmit server post values s)) = queryCache s \<and>
         (\<forall>e \<in> set (emitted s (snd (onSubmit server post values s))).
            stage_of e \<noteq> CacheInvalidation \<and> stage_of e \<noteq> LocalReset)"
  using assms by (simp add: onSubmit_failure failureToast_def draft_def)

theorem network_failure_keeps_draft_witness:
  "trigger_form (form loaded) \<and>
   fst (onSubmit serverDown helloPost (draft loaded) loaded) = Inl (Error ''Network Error'') \<and>
   draft (snd (onSubmit serverDown helloPost (draft loaded) loaded))
     = \<lparr>title = ''Hello'', content = ''World'', categoryId = ''7''\<rparr> \<and>
   characterCount (snd (onSubmit serverDown helloPost (draft loaded) loaded)) = 5 \<and>
   queryCache (snd (onSubmit serverDown helloPost (draft loaded) loaded)) = helloCache"
proof -
  have h: "serverDown \<lparr>path = ''/posts'', id_arg = String_int (post_id helloPost), body = draft loaded\<rparr>
             = Inl (Error ''Network Error'')"
    by (simp add: serverDown_def)
  from network_failure_keeps_draft [of loaded serverDown helloPost "draft loaded"
      "Error ''Network Error''"] h trigger_form_loaded
  show ?thesis
    by (simp add: draft_def form_loaded characterCount_loaded queryCache_loaded)
qed

text \<open>
  C5. What the counter shows depends on the character count alone: nothing
  when the count is 0; otherwise the text \<open>count/500\<close>, in the red class
  exactly when the count exceeds 400, in the yellow class exactly when it
  exceeds 200 and not 400, and in the black class exactly when it is at most 200.
\<close>

theorem counterView_tiers:
  "(counterView n = None \<longleftrightarrow> n = 0) \<and>
   (n \<noteq> 0 \<longrightarrow>
      (\<exists>cls. counterView n = Some (cls, String_nat n @ ''/500'') \<and>
         (cls = '' text-red-500/50'' \<longleftrightarrow> n > 400) \<and>
         (cls = '' text-yellow-500/50'' \<longleftrightarrow> 200 < n \<and> n \<le> 400) \<and>
         (cls = '' text-black/50'' \<longleftrightarrow> n \<le> 200)))"
  by (simp add: counterView_def)

theorem counterView_tiers_witness:
  "counterView 0 = None \<and>
   counterView 5 = Some ('' text-black/50'', ''5/500'') \<and>
   counterView 200 = Some ('' text-black/50'', ''200/500'') \<and>
   counterView 201 = Some ('' text-yellow-500/50'', ''201/500'') \<and>
   counterView 400 = Some ('' text-yellow-500/50'', ''400/500'') \<and>
   counterView 401 = Some ('' text-red-500/50'', ''401/500'')"
proof -
  have d: "String_nat 5 = ''5''" "String_nat 200 = ''200''" "String_nat 201 = ''201''"
    "String_nat 400 = ''400''" "String_nat 401 = ''401''"
    by (simp_all add: String_nat.simps)
  from counterView_tiers [of 0] counterView_tiers [of 5] counterView_tiers [of 200]
    counterView_tiers [of 201] counterView_tiers [of 400] counterView_tiers [of 401] d
  show ?thesis by auto
qed

text \<open>
  C6. The edit of the content and the population from the loaded post leave the
  character count equal to the length of the content (\<open>content_onChange_count\<close>,
  \<open>populate_count\<close>). The reset of a successful submission does not: the
  form goes back to its default values, which the population replaced by the
  loaded post, while the count is set to 0 (\<open>onSubmit_success_reset\<close>). After loading "World", typing
  "World!" and submitting with success, the content is "World" and the count 0.
\<close>

theorem success_reset_count_mismatch:
  "fst (onSubmit serverOk helloPost (draft edited) edited) = Inr () \<and>
   content (draft (snd (onSubmit serverOk helloPost (draft edited) edited))) = ''World'' \<and>
   characterCount (snd (onSubmit serverOk helloPost (draft edited) edited)) = 0 \<and>
   characterCount (snd (onSubmit serverOk helloPost (draft edited) edited))
     \<noteq> length (content (draft (snd (onSubmit serverOk helloPost (draft edited) edited))))"
proof -
  have "trigger_form (form edited)"
    by (simp add: trigger_form_iff form_edited)
  then show ?thesis
    by (simp add: onSubmit_success [where u = "()"] serverOk_def draft_def form_edited)
qed

text \<open>
  C7. Whatever the state before, once the query is no longer loading and holds
  a post, the effect leaves a draft whose title and content are those of the
  post and whose categoryId is the post's categoryId as a string, and a
  character count equal to the length of the post's content.
\<close>

theorem populate_round_trip:
  "draft (populate False (Some p) s) =
     \<lparr>title = post_title p, content = post_content p,
      categoryId = String_int (post_categoryId p)\<rparr> \<and>
   characterCount (populate False (Some p) s) = length (post_content p)"
  by (simp add: populate_def draft_def setCharacterCount_def form_reset_def emit_def)

theorem populate_round_trip_witness:
  "draft (populate False (Some helloPost) mounted) =
     \<lparr>title = ''Hello'', content = ''World'', categoryId = ''7''\<rparr> \<and>
   characterCount (populate False (Some helloPost) mounted) = 5"
  using populate_round_trip [of helloPost mounted]
  by (simp add: helloPost_def String_int_7)

text \<open>
  C8. A successful submission marks the query keyed \<open>["posts"]\<close> as invalidated,
  if the cache holds it, and leaves every query under another key, such as
  \<open>["posts", 2]\<close>, as it was; its one invalidation call names the key
  \<open>["posts"]\<close> with \<open>exact: true\<close>.
\<close>

theorem success_invalidates_posts_only:
  assumes "fst (onSubmit server post values s) = Inr ()"
  shows "(\<forall>k. k \<noteq> [KStr ''posts''] \<longrightarrow>
            queryCache (snd (onSubmit server post values s)) k = queryCache s k) \<and>
         queryCache (snd (onSubmit server post values s)) [KStr ''posts'']
           = map_option (\<lambda>_. True) (queryCache s [KStr ''posts'']) \<and>
         filter (\<lambda>e. stage_of e = CacheInvalidation)
             (emitted s (snd (onSubmit server post values s)))
           = [QueriesInvalidated \<lparr>queryKey = [KStr ''posts''], exact = True\<rparr>]"
proof -
  from onSubmit_Inr_D [OF assms]
  have eq: "onSubmit server post values s =
           (Inr (),
            s\<lparr>form := reset_form None (form s),
              characterCount := 0,
              queryCache := invalidate_cache \<lparr>queryKey = [KStr ''posts''], exact = True\<rparr> (queryCache s),
              log := log s @
                 [Triggered True,
                  UpdateCalled \<lparr>path = ''/posts'', id_arg = String_int (post_id post), body = values\<rparr>,
                  QueriesInvalidated \<lparr>queryKey = [KStr ''posts''], exact = True\<rparr>,
                  FormReset None,
                  CharacterCountSet 0,
                  Toasted successToast]\<rparr>)"
    by (simp add: onSubmit_success)
  show ?thesis
    unfolding eq
    by (simp add: invalidate_cache_def matchQuery_def split: option.splits)
qed

theorem success_invalidates_posts_only_witness:
  "fst (onSubmit serverOk helloPost (draft edited) edited) = Inr () \<and>
   queryCache (snd (onSubmit serverOk helloPost (draft edited) edited)) [KStr ''posts'']
     = Some True \<and>
   queryCache (snd (onSubmit serverOk helloPost (draft edited) edited)) [KStr ''posts'', KNum 2]
     = Some False \<and>
   queryCache (snd (onSubmit serverOk helloPost (draft edited) edited)) [KStr ''post'', KNum 1]
     = Some False"
proof -
  have ok: "trigger_form (form edited)"
    by (simp add: trigger_form_iff form_edited)
  have r: "fst (onSubmit serverOk helloPost (draft edited) edited) = Inr ()"
    using ok by (simp add: onSubmit_success [where u = "()"] serverOk_def)
  have c: "queryCache edited = helloCache"
    by (simp add: edited_def content_onChange_def handleContentChange_def field_onChange_def
        setCharacterCount_def emit_def queryCache_loaded)
  from success_invalidates_posts_only [OF r] r
  show ?thesis by (simp add: c helloCache_def)
qed

text \<open>
  C9. When the draft fails validation, two submissions in a row are both
  rejected with the same error and make the same calls (a validation and the
  destructive toast); the draft is untouched and no call of either is the
  update request.
\<close>

theorem invalid_submit_twice:
  assumes "\<not> trigger_form (form s)"
  shows "let s1 = snd (onSubmit server post values s);
             s2 = snd (onSubmit server post values s1)
         in fst (onSubmit server post values s) = Inl (Error ''Form is not valid'') \<and>
            fst (onSubmit server post values s1) = fst (onSubmit server post values s) \<and>
            emitted s1 s2 = emitted s s1 \<and>
            draft s2 = draft s \<and>
            (\<forall>e \<in> set (emitted s s2). stage_of e \<noteq> NetworkCall)"
proof -
  let ?s1 = "s\<lparr>log := log s @ [Triggered False, Toasted invalidToast]\<rparr>"
  have 1: "onSubmit server post values s = (Inl (Error ''Form is not valid''), ?s1)"
    using assms by (rule onSubmit_invalid)
  have "\<not> trigger_form (form ?s1)"
    using assms by simp
  then have 2: "onSubmit server post values ?s1 =
      (Inl (Error ''Form is not valid''),
       ?s1\<lparr>log := log ?s1 @ [Triggered False, Toasted invalidToast]\<rparr>)"
    by (rule onSubmit_invalid)
  show ?thesis
    unfolding Let_def 1 snd_conv fst_conv 2
    by (simp add: emitted_def draft_def)
qed

theorem invalid_submit_twice_witness:
  "\<not> trigger_form (form mounted) \<and>
   fst (onSubmit serverOk helloPost (draft mounted) mounted) = Inl (Error ''Form is not valid'') \<and>
   fst (onSubmit serverOk helloPost (draft mounted)
          (snd (onSubmit serverOk helloPost (draft mounted) mounted)))
     = Inl (Error ''Form is not valid'') \<and>
   draft (snd (onSubmit serverOk helloPost (draft mounted)
          (snd (onSubmit serverOk helloPost (draft mounted) mounted)))) = emptyValues"
  using invalid_submit_twice [OF trigger_form_mounted, of serverOk helloPost "draft mounted"]
    trigger_form_mounted
  by (simp add: Let_def draft_def form_mounted)

text \<open>
  C10. A submission that fails, by validation or by the update request, leaves
  the character count as it was before the call.
\<close>

theorem failed_submit_keeps_characterCount:
  assumes "fst (onSubmit server post values s) = Inl err"
  shows "characterCount (snd (onSubmit server post values s)) = characterCount s"
  using onSubmit_Inl_D [OF assms] by simp

theorem failed_submit_keeps_characterCount_witness:
  "fst (onSubmit serverDown helloPost (draft edited) edited) = Inl (Error ''Network Error'') \<and>
   characterCount (snd (onSubmit serverDown helloPost (draft edited) edited)) = 6 \<and>
   fst (onSubmit serverOk helloPost (draft mounted) mounted) = Inl (Error ''Form is not valid'') \<and>
   characterCount (snd (onSubmit serverOk helloPost (draft mounted) mounted)) = 0"
proof -
  have ok: "trigger_form (form edited)"
    by (simp add: trigger_form_iff form_edited)
  have r1: "fst (onSubmit serverDown helloPost (draft edited) edited) = Inl (Error ''Network Error'')"
    using ok by (simp add: onSubmit_failure [where err = "Error ''Network Error''"] serverDown_def)
  have r2: "fst (onSubmit serverOk helloPost (draft mounted) mounted) = Inl (Error ''Form is not valid'')"
    using trigger_form_mounted by (simp add: onSubmit_invalid)
  have c: "characterCount mounted = 0"
    by (simp add: mounted_def init_state_def)
  from failed_submit_keeps_characterCount [OF r1] failed_submit_keeps_characterCount [OF r2] r1 r2
  show ?thesis by (simp add: characterCount_edited c)
qed

end
